theory Spec2Isabelle
  imports Complex_Main "HOL-Library.Word"
begin

section \<open>JavaScript values\<close>

text \<open>
  A JavaScript string is a sequence of UTF-16 code units; \<open>String.prototype.trim\<close>
  works on code units, so strings are modelled as lists of 16-bit words. String
  literals of the source are ASCII and are written through \<open>js\<close>.
\<close>

type_synonym js_string = "16 word list"

definition js :: "string \<Rightarrow> js_string" where
  "js cs = map of_char cs"

text \<open>
  The values a response payload can hold: what \<open>JSON.parse\<close> produces, a raw string
  body, or \<open>undefined\<close> when there is no body. An object is the list of its own
  properties.
\<close>

datatype js_value =
    JUndefined
  | JNull
  | JBool bool
  | JNum rat
  | JStr js_string
  | JArr "js_value list"
  | JObj "(js_string \<times> js_value) list"

text \<open>
  ECMAScript \<open>WhiteSpace\<close> and \<open>LineTerminator\<close> code points; \<open>trim\<close> strips both
  from either end of the string.
\<close>

definition is_white_space :: "16 word \<Rightarrow> bool" where
  "is_white_space c \<longleftrightarrow>
     c = 0x0009 \<or> c = 0x000B \<or> c = 0x000C \<or> c = 0x0020 \<or> c = 0x00A0 \<or> c = 0xFEFF \<or>
     c = 0x1680 \<or> (0x2000 \<le> c \<and> c \<le> 0x200A) \<or> c = 0x202F \<or> c = 0x205F \<or> c = 0x3000"

definition is_line_terminator :: "16 word \<Rightarrow> bool" where
  "is_line_terminator c \<longleftrightarrow> c = 0x000A \<or> c = 0x000D \<or> c = 0x2028 \<or> c = 0x2029"

definition is_trimmed_unit :: "16 word \<Rightarrow> bool" where
  "is_trimmed_unit c \<longleftrightarrow> is_white_space c \<or> is_line_terminator c"

definition trim :: "js_string \<Rightarrow> js_string" where
  "trim s = rev (dropWhile is_trimmed_unit (rev (dropWhile is_trimmed_unit s)))"

text \<open>
  \<open>data?.response\<close>: optional chaining gives \<open>undefined\<close> on \<open>undefined\<close> and
  \<open>null\<close>; an object gives the property when it has it; a string, a number, a
  boolean or an array has no property of that name.
\<close>

fun optional_get :: "js_value \<Rightarrow> js_string \<Rightarrow> js_value" where
  "optional_get (JObj props) k = (case map_of props k of None \<Rightarrow> JUndefined | Some v \<Rightarrow> v)"
| "optional_get _ k = JUndefined"

text \<open>\<open>a ?? b\<close>: the right operand only when the left one is \<open>undefined\<close> or \<open>null\<close>.\<close>

fun nullish_or :: "js_value \<Rightarrow> js_value \<Rightarrow> js_value" where
  "nullish_or JUndefined d = d"
| "nullish_or JNull d = d"
| "nullish_or v d = v"

section \<open>The component state\<close>

datatype role = User | Agent

record message =
  role :: role
  content :: js_value

text \<open>The four \<open>useState\<close> cells of \<open>App\<close>; \<open>error\<close> is \<open>null\<close> or a string.\<close>

record app_state =
  prompt :: js_string
  messages :: "message list"
  isLoading :: bool
  error :: "js_string option"

definition initial_state :: app_state where
  "initial_state = \<lparr>prompt = [], messages = [], isLoading = False, error = None\<rparr>"

definition API_URL :: js_string where
  "API_URL = js ''http://localhost:8000/api/agent/query''"

definition fallback_text :: js_string where
  "fallback_text = js ''No response received.''"

definition error_text :: js_string where
  "error_text = js ''Unable to contact the SuperAgent backend. Please try again.''"

record request =
  url :: js_string
  body_prompt :: js_string
  content_type :: js_string

section \<open>The submit handler\<close>

text \<open>
  What \<open>handleSubmit\<close> does, one constructor per statement: the state setters (the two
  functional updates of \<open>messages\<close> apply to the list as it is when they run), the
  call of \<open>axios.post\<close>, and \<open>event.preventDefault()\<close>. A list of effects is the
  order of the calls; the setters called in one run of the handler are committed
  together, so the component holds only the state \<open>run_effects\<close> gives for the whole
  list.
\<close>

datatype effect =
    PreventDefault
  | AppendMessage message
  | DropLastMessage
  | SetPrompt js_string
  | SetIsLoading bool
  | SetError "js_string option"
  | AxiosPost request

fun apply_effect :: "app_state \<Rightarrow> effect \<Rightarrow> app_state" where
  "apply_effect s PreventDefault = s"
| "apply_effect s (AppendMessage m) = s\<lparr>messages := messages s @ [m]\<rparr>"
| "apply_effect s DropLastMessage = s\<lparr>messages := butlast (messages s)\<rparr>"
| "apply_effect s (SetPrompt p) = s\<lparr>prompt := p\<rparr>"
| "apply_effect s (SetIsLoading b) = s\<lparr>isLoading := b\<rparr>"
| "apply_effect s (SetError e) = s\<lparr>error := e\<rparr>"
| "apply_effect s (AxiosPost r) = s"

definition run_effects :: "app_state \<Rightarrow> effect list \<Rightarrow> app_state" where
  "run_effects s effs = foldl apply_effect s effs"

fun posted :: "effect list \<Rightarrow> request list" where
  "posted [] = []"
| "posted (AxiosPost r # effs) = r # posted effs"
| "posted (_ # effs) = posted effs"

text \<open>
  The promise of \<open>axios.post\<close> either resolves with a response, of which the handler
  reads \<open>data\<close>, or rejects; the handler's \<open>catch\<close> ignores what was thrown.
\<close>

datatype failure = NetworkError | BadStatus nat | RequestError

datatype outcome = Resolved js_value | Rejected failure

text \<open>
  \<open>handleSubmit\<close> up to the \<open>await\<close> (lines 13 to 31), reading the \<open>prompt\<close> of the
  render it belongs to. An empty string is the only falsy string.
\<close>

definition handleSubmit :: "app_state \<Rightarrow> effect list" where
  "handleSubmit s =
     (let trimmedPrompt = trim (prompt s) in
      if trimmedPrompt = [] then [PreventDefault]
      else
        [PreventDefault,
         AppendMessage \<lparr>role = User, content = JStr trimmedPrompt\<rparr>,
         SetPrompt [],
         SetIsLoading True,
         SetError None,
         AxiosPost \<lparr>url = API_URL, body_prompt = trimmedPrompt,
                    content_type = js ''application/json''\<rparr>])"

definition agentResponse :: "js_value \<Rightarrow> js_value" where
  "agentResponse data = nullish_or (optional_get data (js ''response'')) (JStr fallback_text)"

text \<open>\<open>handleSubmit\<close> from the \<open>await\<close> on (lines 33 to 40): \<open>try\<close>, \<open>catch\<close>, \<open>finally\<close>.\<close>

fun handleSubmit_resume :: "outcome \<Rightarrow> effect list" where
  "handleSubmit_resume (Resolved data) =
     [AppendMessage \<lparr>role = Agent, content = agentResponse data\<rparr>, SetIsLoading False]"
| "handleSubmit_resume (Rejected err) =
     [SetError (Some error_text), DropLastMessage, SetIsLoading False]"

text \<open>One whole call of the handler, with the outcome of the request it may have made.\<close>

definition submit :: "app_state \<Rightarrow> outcome \<Rightarrow> app_state" where
  "submit s out =
     (let effs = handleSubmit s; s1 = run_effects s effs in
      if posted effs = [] then s1 else run_effects s1 (handleSubmit_resume out))"

section \<open>The page as a transition system\<close>

text \<open>
  Both the input and the button are rendered with \<open>disabled={isLoading}\<close>.
\<close>

definition input_disabled :: "app_state \<Rightarrow> bool" where
  "input_disabled s = isLoading s"

definition button_disabled :: "app_state \<Rightarrow> bool" where
  "button_disabled s = isLoading s"

text \<open>
  The events of the page: the user edits the input (\<open>onChange\<close>, only while the input
  is enabled), the form's submit handler runs (taken as possible in any state, which
  is more than the disabled button allows), and a pending request settles. The
  component is rendered again between two events, so a handler reads the state the
  event before it left. The system state is the component state with the requests
  that have not settled yet.
\<close>

datatype event = Change js_string | Submit | Settle nat outcome

record system =
  ui :: app_state
  pending :: "request list"

definition initial_system :: system where
  "initial_system = \<lparr>ui = initial_state, pending = []\<rparr>"

fun step :: "system \<Rightarrow> event \<Rightarrow> system option" where
  "step sys (Change v) =
     (if input_disabled (ui sys) then None
      else Some (sys\<lparr>ui := apply_effect (ui sys) (SetPrompt v)\<rparr>))"
| "step sys Submit =
     (let effs = handleSubmit (ui sys) in
      Some \<lparr>ui = run_effects (ui sys) effs, pending = pending sys @ posted effs\<rparr>)"
| "step sys (Settle i out) =
     (if i < length (pending sys)
      then Some \<lparr>ui = run_effects (ui sys) (handleSubmit_resume out),
                 pending = take i (pending sys) @ drop (Suc i) (pending sys)\<rparr>
      else None)"

fun exec :: "system \<Rightarrow> event list \<Rightarrow> system option" where
  "exec sys [] = Some sys"
| "exec sys (e # es) = (case step sys e of None \<Rightarrow> None | Some sys' \<Rightarrow> exec sys' es)"

section \<open>Vocabulary of the properties\<close>

text \<open>
  \<open>precedes a b effs\<close>: \<open>a\<close> occurs in \<open>effs\<close> and \<open>b\<close> occurs after its first
  occurrence.
\<close>

definition precedes :: "effect \<Rightarrow> effect \<Rightarrow> effect list \<Rightarrow> bool" where
  "precedes a b effs \<longleftrightarrow> b \<in> set (tl (dropWhile (\<lambda>e. e \<noteq> a) effs))"

fun is_object :: "js_value \<Rightarrow> bool" where
  "is_object (JObj props) = True"
| "is_object _ = False"

fun rejected :: "outcome \<Rightarrow> bool" where
  "rejected (Rejected err) = True"
| "rejected (Resolved data) = False"

text \<open>The request an accepted submission posts.\<close>

definition request_of :: "app_state \<Rightarrow> request" where
  "request_of s = \<lparr>url = API_URL, body_prompt = trim (prompt s),
                   content_type = js ''application/json''\<rparr>"

text \<open>
  The state after a failed first submission, with something typed again, and the
  state with a first prompt typed.
\<close>

definition retry_state :: app_state where
  "retry_state = \<lparr>prompt = js ''  Buy AAPL? '', messages = [], isLoading = False,
                   error = Some error_text\<rparr>"

definition typed_state :: app_state where
  "typed_state = \<lparr>prompt = js ''  Buy AAPL? '', messages = [], isLoading = False,
                   error = None\<rparr>"

definition user_message :: message where
  "user_message = \<lparr>role = User, content = JStr (js ''Buy AAPL?'')\<rparr>"

text \<open>
  What holds of every state the page can reach: the flag is up exactly while a
  request is pending, there is at most one, and the input is empty meanwhile.
\<close>

definition single_flight :: "system \<Rightarrow> bool" where
  "single_flight sys \<longleftrightarrow>
     (isLoading (ui sys) \<longleftrightarrow> pending sys \<noteq> []) \<and>
     length (pending sys) \<le> 1 \<and>
     (isLoading (ui sys) \<longrightarrow> prompt (ui sys) = [])"

section \<open>Basic facts\<close>

lemma handleSubmit_blank:
  "trim (prompt s) = [] \<Longrightarrow> handleSubmit s = [PreventDefault]"
  by (simp add: handleSubmit_def)

lemma handleSubmit_accepted:
  "trim (prompt s) \<noteq> [] \<Longrightarrow>
   handleSubmit s =
     [PreventDefault,
      AppendMessage \<lparr>role = User, content = JStr (trim (prompt s))\<rparr>,
      SetPrompt [], SetIsLoading True, SetError None,
      AxiosPost \<lparr>url = API_URL, body_prompt = trim (prompt s),
                 content_type = js ''application/json''\<rparr>]"
  by (simp add: handleSubmit_def Let_def)

lemma trim_padded [simp]: "trim (js ''  Buy AAPL? '') = js ''Buy AAPL?''"
  by (simp add: trim_def js_def is_trimmed_unit_def is_white_space_def is_line_terminator_def)

lemma trim_blank [simp]: "trim [0x20, 0x09, 0x2003, 0x0A] = []"
  by (simp add: trim_def is_trimmed_unit_def is_white_space_def is_line_terminator_def)

lemma trim_empty [simp]: "trim [] = []"
  by (simp add: trim_def)

lemma trim_retry [simp]: "trim (prompt retry_state) = js ''Buy AAPL?''"
  by (simp add: retry_state_def)

lemma trim_typed [simp]: "trim (prompt typed_state) = js ''Buy AAPL?''"
  by (simp add: typed_state_def)

lemma js_nonempty [simp]: "js (c # cs) \<noteq> []"
  by (simp add: js_def)

lemma submit_rejected:
  "trim (prompt s) \<noteq> [] \<Longrightarrow>
   submit s (Rejected err) = s\<lparr>prompt := [], isLoading := False, error := Some error_text\<rparr>"
  by (simp add: submit_def handleSubmit_accepted run_effects_def)

lemma submit_resolved:
  "trim (prompt s) \<noteq> [] \<Longrightarrow>
   submit s (Resolved data) =
     s\<lparr>prompt := [],
       messages := messages s @ [\<lparr>role = User, content = JStr (trim (prompt s))\<rparr>,
                                 \<lparr>role = Agent, content = agentResponse data\<rparr>],
       isLoading := False, error := None\<rparr>"
  by (simp add: submit_def handleSubmit_accepted run_effects_def)

lemma agentResponse_string:
  "map_of props (js ''response'') = Some (JStr R) \<Longrightarrow> agentResponse (JObj props) = JStr R"
  by (simp add: agentResponse_def)

lemma agentResponse_absent:
  "map_of props (js ''response'') = None \<Longrightarrow> agentResponse (JObj props) = JStr fallback_text"
  by (simp add: agentResponse_def)

lemma agentResponse_null:
  "map_of props (js ''response'') = Some JNull \<Longrightarrow> agentResponse (JObj props) = JStr fallback_text"
  by (simp add: agentResponse_def)

lemma agentResponse_not_object:
  "\<not> is_object data \<Longrightarrow> agentResponse data = JStr fallback_text"
  by (cases data) (simp_all add: agentResponse_def)

lemma nullish_or_string: "nullish_or v (JStr d) \<noteq> JNull \<and> nullish_or v (JStr d) \<noteq> JUndefined"
  by (cases v) simp_all

subsection \<open>The invariant of the page\<close>

lemma single_flight_initial: "single_flight initial_system"
  by (simp add: single_flight_def initial_system_def initial_state_def)

lemma single_flight_step:
  assumes "single_flight sys" and "step sys e = Some sys'"
  shows "single_flight sys'"
proof (cases e)
  case (Change v)
  with assms show ?thesis
    by (auto simp: single_flight_def input_disabled_def split: if_splits)
next
  case Submit
  show ?thesis
  proof (cases "trim (prompt (ui sys)) = []")
    case True
    with assms Submit show ?thesis
      by (auto simp: single_flight_def handleSubmit_blank run_effects_def)
  next
    case False
    with assms(1) have idle: "\<not> isLoading (ui sys)" "pending sys = []"
      by (auto simp: single_flight_def)
    with assms(2) Submit False show ?thesis
      by (auto simp: single_flight_def handleSubmit_accepted run_effects_def)
  qed
next
  case (Settle i out)
  with assms have "i < length (pending sys)"
    by (auto split: if_splits)
  with assms(1) have "i = 0" "length (pending sys) = 1"
    by (auto simp: single_flight_def)
  with assms Settle show ?thesis
    by (cases out) (auto simp: single_flight_def run_effects_def)
qed

lemma single_flight_exec:
  "single_flight sys \<Longrightarrow> exec sys evs = Some sys' \<Longrightarrow> single_flight sys'"
proof (induction evs arbitrary: sys)
  case Nil
  then show ?case by simp
next
  case (Cons e evs)
  then show ?case
    by (auto split: option.splits dest: single_flight_step)
qed

lemma reachable_single_flight:
  "exec initial_system evs = Some sys \<Longrightarrow> single_flight sys"
  using single_flight_initial single_flight_exec by blast

lemma exec_typed_submitted:
  "exec initial_system [Change (js ''  Buy AAPL? ''), Submit] =
     Some \<lparr>ui = \<lparr>prompt = [], messages = [user_message], isLoading = True, error = None\<rparr>,
           pending = [request_of typed_state]\<rparr>"
  by (simp add: initial_system_def initial_state_def input_disabled_def handleSubmit_def
      Let_def run_effects_def user_message_def request_of_def typed_state_def)

lemma exec_typed:
  "exec initial_system [Change (js ''  Buy AAPL? '')] = Some \<lparr>ui = typed_state, pending = []\<rparr>"
  by (simp add: initial_system_def initial_state_def input_disabled_def typed_state_def)

section \<open>Blank prompts\<close>

text \<open>
  C5. When the prompt trims to the empty string, the handler returns at once: the
  state it leaves is the state it found (so \<open>messages\<close>, \<open>isLoading\<close> and \<open>error\<close> are
  unchanged), it never calls \<open>setIsLoading\<close>, and it posts no request.
\<close>

theorem blank_prompt_is_noop:
  assumes "trim (prompt s) = []"
  shows "run_effects s (handleSubmit s) = s \<and> submit s out = s \<and>
         SetIsLoading b \<notin> set (handleSubmit s) \<and> posted (handleSubmit s) = []"
  using assms by (simp add: handleSubmit_blank run_effects_def submit_def)

theorem blank_prompt_is_noop_witness:
  "trim [0x20, 0x09, 0x2003, 0x0A] = [] \<and>
   submit \<lparr>prompt = [0x20, 0x09, 0x2003, 0x0A], messages = [], isLoading = False,
           error = Some error_text\<rparr> (Rejected NetworkError)
     = \<lparr>prompt = [0x20, 0x09, 0x2003, 0x0A], messages = [], isLoading = False,
        error = Some error_text\<rparr> \<and>
   posted (handleSubmit \<lparr>prompt = [0x20, 0x09, 0x2003, 0x0A], messages = [],
                          isLoading = False, error = Some error_text\<rparr>) = []"
  using blank_prompt_is_noop
    [of "\<lparr>prompt = [0x20, 0x09, 0x2003, 0x0A], messages = [], isLoading = False,
          error = Some error_text\<rparr>" "Rejected NetworkError"]
  by simp


section \<open>Failure and success of the request\<close>

text \<open>
  C1. For a prompt whose trimmed form is not empty and any prior \<open>messages\<close>, when the
  request fails, for whatever reason, the list after settlement is the list before the
  submission and \<open>error\<close> is the fixed text.
\<close>

theorem failed_request_rolls_back:
  assumes "trim (prompt s) \<noteq> []"
  shows "messages (submit s (Rejected err)) = messages s \<and>
         error (submit s (Rejected err)) =
           Some (js ''Unable to contact the SuperAgent backend. Please try again.'')"
  using assms by (simp add: submit_rejected error_text_def)

theorem failed_request_rolls_back_witness:
  "trim (prompt typed_state) \<noteq> [] \<and>
   messages (submit typed_state (Rejected NetworkError)) = [] \<and>
   error (submit typed_state (Rejected NetworkError)) =
     Some (js ''Unable to contact the SuperAgent backend. Please try again.'')"
  using failed_request_rolls_back [of typed_state NetworkError]
  by (simp add: typed_state_def)

text \<open>
  C2. For a prompt with non-empty trimmed form \<open>P'\<close> and any prior \<open>messages\<close>, when the
  request succeeds with a payload whose \<open>response\<close> field is the string \<open>R\<close>, the list
  after settlement is the prior list followed by the user entry with \<open>P'\<close> and the
  agent entry with \<open>R\<close>.
\<close>

theorem successful_request_appends_pair:
  assumes "trim (prompt s) \<noteq> []"
    and "map_of props (js ''response'') = Some (JStr R)"
  shows "messages (submit s (Resolved (JObj props))) =
           messages s @ [\<lparr>role = User, content = JStr (trim (prompt s))\<rparr>,
                         \<lparr>role = Agent, content = JStr R\<rparr>]"
  using assms by (simp add: submit_resolved agentResponse_string)

theorem successful_request_appends_pair_witness:
  "trim (prompt retry_state) \<noteq> [] \<and>
   map_of [(js ''response'', JStr (js ''Yes, 10 shares.''))] (js ''response'') =
     Some (JStr (js ''Yes, 10 shares.'')) \<and>
   messages (submit retry_state
      (Resolved (JObj [(js ''response'', JStr (js ''Yes, 10 shares.''))]))) =
     [\<lparr>role = User, content = JStr (js ''Buy AAPL?'')\<rparr>,
      \<lparr>role = Agent, content = JStr (js ''Yes, 10 shares.'')\<rparr>]"
  using successful_request_appends_pair
    [of retry_state "[(js ''response'', JStr (js ''Yes, 10 shares.''))]" "js ''Yes, 10 shares.''"]
  by (simp add: retry_state_def)

text \<open>
  C6. When the request succeeds with a payload that has no \<open>response\<close> field, the agent
  entry appended after the user entry holds the fallback text.
\<close>

theorem missing_response_gives_fallback:
  assumes "trim (prompt s) \<noteq> []"
    and "map_of props (js ''response'') = None"
  shows "messages (submit s (Resolved (JObj props))) =
           messages s @ [\<lparr>role = User, content = JStr (trim (prompt s))\<rparr>,
                         \<lparr>role = Agent, content = JStr (js ''No response received.'')\<rparr>]"
  using assms by (simp add: submit_resolved agentResponse_absent fallback_text_def)

theorem missing_response_gives_fallback_witness:
  "trim (prompt typed_state) \<noteq> [] \<and>
   map_of [(js ''status'', JStr (js ''ok''))] (js ''response'') = None \<and>
   messages (submit typed_state (Resolved (JObj [(js ''status'', JStr (js ''ok''))]))) =
     [\<lparr>role = User, content = JStr (js ''Buy AAPL?'')\<rparr>,
      \<lparr>role = Agent, content = JStr (js ''No response received.'')\<rparr>]"
proof -
  have accepted: "trim (prompt typed_state) \<noteq> []"
    by simp
  have absent: "map_of [(js ''status'', JStr (js ''ok''))] (js ''response'') = None"
    by (simp add: js_def)
  from missing_response_gives_fallback [OF accepted absent] accepted absent
  show ?thesis by (simp add: typed_state_def)
qed

text \<open>
  C9. When the request succeeds with a payload whose \<open>response\<close> field is \<open>null\<close>, the
  agent entry holds the fallback text, as for a missing field; whatever the payload,
  the content of the agent entry is neither \<open>null\<close> nor \<open>undefined\<close>.
\<close>

theorem null_response_gives_fallback:
  assumes "trim (prompt s) \<noteq> []"
    and "map_of props (js ''response'') = Some JNull"
  shows "messages (submit s (Resolved (JObj props))) =
           messages s @ [\<lparr>role = User, content = JStr (trim (prompt s))\<rparr>,
                         \<lparr>role = Agent, content = JStr (js ''No response received.'')\<rparr>] \<and>
         agentResponse data \<noteq> JNull \<and> agentResponse data \<noteq> JUndefined"
  using assms nullish_or_string
  by (simp add: submit_resolved agentResponse_null fallback_text_def agentResponse_def)

theorem null_response_gives_fallback_witness:
  "trim (prompt typed_state) \<noteq> [] \<and>
   map_of [(js ''response'', JNull)] (js ''response'') = Some JNull \<and>
   messages (submit typed_state (Resolved (JObj [(js ''response'', JNull)]))) =
     [\<lparr>role = User, content = JStr (js ''Buy AAPL?'')\<rparr>,
      \<lparr>role = Agent, content = JStr (js ''No response received.'')\<rparr>]"
  using null_response_gives_fallback [of typed_state "[(js ''response'', JNull)]"]
  by (simp add: typed_state_def)

section \<open>The in-flight flag\<close>

text \<open>
  C3. In every state the page can reach, \<open>isLoading\<close> is true exactly while a request
  is pending, so it is false outside the interval from submission to settlement. An
  accepted submission sets it to true before it posts its one request, and the
  handler resumes by setting it to false last, whether the request resolved or
  rejected.
\<close>

theorem in_flight_flag:
  assumes "exec initial_system evs = Some sys"
  shows "(isLoading (ui sys) \<longleftrightarrow> pending sys \<noteq> []) \<and>
         (trim (prompt (ui sys)) \<noteq> [] \<longrightarrow>
            \<not> isLoading (ui sys) \<and>
            precedes (SetIsLoading True) (AxiosPost (request_of (ui sys)))
              (handleSubmit (ui sys)) \<and>
            posted (handleSubmit (ui sys)) = [request_of (ui sys)] \<and>
            isLoading (run_effects (ui sys) (handleSubmit (ui sys)))) \<and>
         last (handleSubmit_resume out) = SetIsLoading False \<and>
         \<not> isLoading (run_effects s (handleSubmit_resume out))"
proof -
  from assms have inv: "single_flight sys"
    by (rule reachable_single_flight)
  have flag: "isLoading (ui sys) \<longleftrightarrow> pending sys \<noteq> []"
    using inv by (simp add: single_flight_def)
  have start: "\<not> isLoading (ui sys) \<and>
      precedes (SetIsLoading True) (AxiosPost (request_of (ui sys))) (handleSubmit (ui sys)) \<and>
      posted (handleSubmit (ui sys)) = [request_of (ui sys)] \<and>
      isLoading (run_effects (ui sys) (handleSubmit (ui sys)))"
    if "trim (prompt (ui sys)) \<noteq> []"
    using that inv
    by (auto simp: single_flight_def handleSubmit_accepted precedes_def request_of_def
        run_effects_def)
  have settle: "last (handleSubmit_resume out) = SetIsLoading False \<and>
      \<not> isLoading (run_effects s (handleSubmit_resume out))"
    by (cases out) (simp_all add: run_effects_def)
  from flag start settle show ?thesis by blast
qed

theorem in_flight_flag_witness:
  "exec initial_system [Change (js ''  Buy AAPL? '')] = Some \<lparr>ui = typed_state, pending = []\<rparr> \<and>
   trim (prompt typed_state) \<noteq> [] \<and>
   \<not> isLoading typed_state \<and>
   precedes (SetIsLoading True) (AxiosPost (request_of typed_state)) (handleSubmit typed_state) \<and>
   isLoading (run_effects typed_state (handleSubmit typed_state)) \<and>
   \<not> isLoading (run_effects (run_effects typed_state (handleSubmit typed_state))
        (handleSubmit_resume (Rejected (BadStatus 500))))"
  using in_flight_flag [OF exec_typed,
      of "Rejected (BadStatus 500)" "run_effects typed_state (handleSubmit typed_state)"]
    exec_typed
  by simp

text \<open>
  C4. In every state the page can reach at most one request is pending, and while
  \<open>isLoading\<close> is true a run of the submit handler changes nothing and posts nothing:
  the input was cleared by the submission in flight and is disabled, as the button
  is, until it settles, so the handler finds an empty prompt and returns.
\<close>

theorem one_request_in_flight:
  assumes "exec initial_system evs = Some sys"
  shows "length (pending sys) \<le> 1 \<and>
         (isLoading (ui sys) \<longrightarrow>
            run_effects (ui sys) (handleSubmit (ui sys)) = ui sys \<and>
            posted (handleSubmit (ui sys)) = [] \<and>
            step sys Submit = Some sys \<and>
            input_disabled (ui sys) \<and> button_disabled (ui sys) \<and>
            step sys (Change v) = None)"
proof -
  from assms have inv: "single_flight sys"
    by (rule reachable_single_flight)
  then have bound: "length (pending sys) \<le> 1"
    by (simp add: single_flight_def)
  have ignored: "run_effects (ui sys) (handleSubmit (ui sys)) = ui sys \<and>
      posted (handleSubmit (ui sys)) = [] \<and> step sys Submit = Some sys \<and>
      input_disabled (ui sys) \<and> button_disabled (ui sys) \<and>
      step sys (Change v) = None"
    if "isLoading (ui sys)"
  proof -
    from that inv have "trim (prompt (ui sys)) = []"
      by (simp add: single_flight_def)
    with that show ?thesis
      by (simp add: handleSubmit_blank run_effects_def input_disabled_def button_disabled_def)
  qed
  from bound ignored show ?thesis by blast
qed

theorem one_request_in_flight_witness:
  "exec initial_system [Change (js ''  Buy AAPL? ''), Submit] =
     Some \<lparr>ui = \<lparr>prompt = [], messages = [user_message], isLoading = True, error = None\<rparr>,
           pending = [request_of typed_state]\<rparr> \<and>
   step \<lparr>ui = \<lparr>prompt = [], messages = [user_message], isLoading = True, error = None\<rparr>,
         pending = [request_of typed_state]\<rparr> Submit =
     Some \<lparr>ui = \<lparr>prompt = [], messages = [user_message], isLoading = True, error = None\<rparr>,
           pending = [request_of typed_state]\<rparr> \<and>
   posted (handleSubmit \<lparr>prompt = [], messages = [user_message], isLoading = True,
                          error = None\<rparr>) = []"
  using one_request_in_flight [OF exec_typed_submitted] exec_typed_submitted
  by simp

section \<open>Payloads of another shape\<close>

text \<open>
  C7, as stated, fails: a request that resolves with a body that is not the expected
  object, here a raw text body and a JSON array, takes the success path. The error
  stays cleared, the user entry is kept, and the agent entry holds the fallback
  text, which is not what a rejected request leaves.
\<close>

theorem malformed_payload_counterexample:
  "submit typed_state (Resolved (JStr (js ''OK''))) \<noteq>
     submit typed_state (Rejected NetworkError) \<and>
   error (submit typed_state (Resolved (JStr (js ''OK'')))) = None \<and>
   messages (submit typed_state (Resolved (JStr (js ''OK'')))) =
     [user_message, \<lparr>role = Agent, content = JStr (js ''No response received.'')\<rparr>] \<and>
   error (submit typed_state (Resolved (JArr [JNum 1, JNum 2]))) = None \<and>
   messages (submit typed_state (Resolved (JArr [JNum 1, JNum 2]))) =
     [user_message, \<lparr>role = Agent, content = JStr (js ''No response received.'')\<rparr>]"
  by (simp add: submit_resolved submit_rejected agentResponse_def fallback_text_def
      user_message_def typed_state_def)

text \<open>
  C7, amended. The handler does not inspect the shape of the payload: every resolved
  request takes the success path, leaving \<open>error\<close> cleared and the user entry followed
  by an agent entry, whose content is the fallback text whenever the payload is not
  an object. The fixed error text is set exactly when the request rejects.
\<close>

theorem resolved_payload_never_fails:
  assumes "trim (prompt s) \<noteq> []"
  shows "error (submit s (Resolved data)) = None \<and>
         messages (submit s (Resolved data)) =
           messages s @ [\<lparr>role = User, content = JStr (trim (prompt s))\<rparr>,
                         \<lparr>role = Agent, content = agentResponse data\<rparr>] \<and>
         (\<not> is_object data \<longrightarrow> agentResponse data = JStr (js ''No response received.'')) \<and>
         (error (submit s out) = Some error_text \<longleftrightarrow> rejected out)"
proof -
  have "error (submit s out) = Some error_text \<longleftrightarrow> rejected out"
    using assms by (cases out) (simp_all add: submit_resolved submit_rejected)
  with assms show ?thesis
    using agentResponse_not_object [of data]
    by (simp add: submit_resolved fallback_text_def)
qed

theorem resolved_payload_never_fails_witness:
  "trim (prompt typed_state) \<noteq> [] \<and>
   error (submit typed_state (Resolved (JNum 42))) = None \<and>
   \<not> is_object (JNum 42) \<and>
   agentResponse (JNum 42) = JStr (js ''No response received.'') \<and>
   error (submit typed_state (Rejected (BadStatus 502))) = Some error_text"
  using resolved_payload_never_fails [of typed_state "JNum 42" "Rejected (BadStatus 502)"]
  by simp

section \<open>Order of the updates of a submission\<close>

text \<open>
  C8, as stated, fails: the handler calls \<open>setIsLoading(true)\<close> before
  \<open>setError(null)\<close>, not after it.
\<close>

theorem error_cleared_first_counterexample:
  "precedes (SetIsLoading True) (SetError None) (handleSubmit retry_state) \<and>
   \<not> precedes (SetError None) (SetIsLoading True) (handleSubmit retry_state)"
  by (simp add: handleSubmit_accepted precedes_def)

text \<open>
  C8, amended. An accepted submission makes its calls in this order: the user
  entry is appended, the input is cleared, \<open>isLoading\<close> is set to true, \<open>error\<close> is
  cleared, and then the one request is posted, last of all.
\<close>

theorem submission_order:
  assumes "trim (prompt s) \<noteq> []"
  shows "precedes PreventDefault
           (AppendMessage \<lparr>role = User, content = JStr (trim (prompt s))\<rparr>) (handleSubmit s) \<and>
         precedes (AppendMessage \<lparr>role = User, content = JStr (trim (prompt s))\<rparr>)
           (SetPrompt []) (handleSubmit s) \<and>
         precedes (SetPrompt []) (SetIsLoading True) (handleSubmit s) \<and>
         precedes (SetIsLoading True) (SetError None) (handleSubmit s) \<and>
         precedes (SetError None) (AxiosPost (request_of s)) (handleSubmit s) \<and>
         last (handleSubmit s) = AxiosPost (request_of s) \<and>
         posted (handleSubmit s) = [request_of s] \<and>
         distinct (handleSubmit s) \<and> length (handleSubmit s) = 6"
  using assms by (simp add: handleSubmit_accepted precedes_def request_of_def)

theorem submission_order_witness:
  "trim (prompt retry_state) \<noteq> [] \<and>
   precedes (SetIsLoading True) (SetError None) (handleSubmit retry_state) \<and>
   precedes (SetError None) (AxiosPost (request_of retry_state)) (handleSubmit retry_state) \<and>
   posted (handleSubmit retry_state) = [request_of retry_state]"
  using submission_order [of retry_state]
  by simp

section \<open>What a submission leaves untouched\<close>

text \<open>
  C10, as stated, fails in its last part: besides \<open>messages\<close>, \<open>prompt\<close> and \<open>error\<close> an
  accepted submission writes \<open>isLoading\<close>, which is true once the handler has reached
  the request.
\<close>

theorem only_prompt_and_error_counterexample:
  "SetIsLoading True \<in> set (handleSubmit typed_state) \<and>
   isLoading (run_effects typed_state (handleSubmit typed_state)) \<noteq> isLoading typed_state"
  by (simp add: handleSubmit_accepted run_effects_def) (simp add: typed_state_def)

text \<open>
  C10, amended. Whatever the state, after settlement the list is the prior list
  with nothing appended (blank prompt, failure) or with two entries appended
  (success), so the prior list is a prefix of it. A submission writes \<open>prompt\<close>,
  \<open>error\<close> and \<open>isLoading\<close> besides; in a state the page can reach, \<open>isLoading\<close> is after
  settlement what it was before, and only \<open>prompt\<close> and \<open>error\<close> differ.
\<close>

theorem messages_prefix_preserved:
  assumes "exec initial_system evs = Some sys"
  shows "(trim (prompt s) = [] \<longrightarrow> submit s out = s) \<and>
         (trim (prompt s) \<noteq> [] \<longrightarrow>
            messages (submit s (Rejected err)) = messages s \<and>
            messages (submit s (Resolved data)) =
              messages s @ [\<lparr>role = User, content = JStr (trim (prompt s))\<rparr>,
                            \<lparr>role = Agent, content = agentResponse data\<rparr>]) \<and>
         take (length (messages s)) (messages (submit s out)) = messages s \<and>
         isLoading (submit (ui sys) out) = isLoading (ui sys) \<and>
         (trim (prompt (ui sys)) \<noteq> [] \<longrightarrow>
            submit (ui sys) (Rejected err) = (ui sys)\<lparr>prompt := [], error := Some error_text\<rparr> \<and>
            submit (ui sys) (Resolved data) =
              (ui sys)\<lparr>prompt := [],
                messages := messages (ui sys) @
                  [\<lparr>role = User, content = JStr (trim (prompt (ui sys)))\<rparr>,
                   \<lparr>role = Agent, content = agentResponse data\<rparr>],
                error := None\<rparr>)"
proof -
  from assms have inv: "single_flight sys"
    by (rule reachable_single_flight)
  have blank: "submit s out = s" if "trim (prompt s) = []" for s
    using that by (simp add: submit_def handleSubmit_blank run_effects_def)
  have prefix: "take (length (messages s)) (messages (submit s out)) = messages s"
  proof (cases "trim (prompt s) = []")
    case True
    then show ?thesis by (simp add: blank)
  next
    case False
    then show ?thesis
      by (cases out) (simp_all add: submit_resolved submit_rejected)
  qed
  have idle: "\<not> isLoading (ui sys)" if "trim (prompt (ui sys)) \<noteq> []"
    using that inv by (auto simp: single_flight_def)
  have flag: "isLoading (submit (ui sys) out) = isLoading (ui sys)"
  proof (cases "trim (prompt (ui sys)) = []")
    case True
    then show ?thesis by (simp add: blank)
  next
    case False
    with idle show ?thesis
      by (cases out) (simp_all add: submit_resolved submit_rejected)
  qed
  have frame: "submit (ui sys) (Rejected err) =
        (ui sys)\<lparr>prompt := [], error := Some error_text\<rparr> \<and>
      submit (ui sys) (Resolved data) =
        (ui sys)\<lparr>prompt := [],
          messages := messages (ui sys) @
            [\<lparr>role = User, content = JStr (trim (prompt (ui sys)))\<rparr>,
             \<lparr>role = Agent, content = agentResponse data\<rparr>],
          error := None\<rparr>"
    if "trim (prompt (ui sys)) \<noteq> []"
    using that idle by (simp add: submit_resolved submit_rejected)
  from blank prefix flag frame show ?thesis
    by (simp add: submit_resolved submit_rejected)
qed

theorem messages_prefix_preserved_witness:
  "exec initial_system [Change (js ''  Buy AAPL? '')] = Some \<lparr>ui = typed_state, pending = []\<rparr> \<and>
   trim (prompt typed_state) \<noteq> [] \<and>
   submit typed_state (Rejected NetworkError) =
     typed_state\<lparr>prompt := [], error := Some error_text\<rparr> \<and>
   isLoading (submit typed_state (Rejected NetworkError)) = isLoading typed_state \<and>
   take (length (messages typed_state)) (messages (submit typed_state (Rejected NetworkError)))
     = messages typed_state"
  using messages_prefix_preserved [OF exec_typed, of typed_state "Rejected NetworkError"
      NetworkError] exec_typed
  by simp

end
